theory Spec2Isabelle
  imports Main "HOL-Library.Signed_Division"
begin

section \<open>GoPostal: an SMTP relay to the MS Graph API\<close>

text \<open>
  A shallow embedding of the session policy engine (\<^verbatim>\<open>pkg/receiver/session.go\<close>), the
  authenticators (\<^verbatim>\<open>pkg/auth/auth.go\<close>), the retry primitive
  (\<^verbatim>\<open>pkg/utils/utils.go\<close>) and the Graph sender with its token cache
  (\<^verbatim>\<open>pkg/sender/graph.go\<close>).

  Go strings and byte slices are byte sequences: both are \<^typ>\<open>string\<close> here.
  Go's \<^verbatim>\<open>int\<close>, \<^verbatim>\<open>int64\<close> and \<^verbatim>\<open>time.Duration\<close> are \<^typ>\<open>int\<close>, with the 64-bit
  wrap-around written out where the code computes with them. A Go \<^verbatim>\<open>error\<close> result is
  an \<open>error option\<close> (\<open>None\<close> is \<^verbatim>\<open>nil\<close>); a panic is a result of its own.
\<close>

subsection \<open>Errors and results\<close>

datatype error =
    ErrAuthRequired          \<comment> \<open>\<^verbatim>\<open>smtp.ErrAuthRequired\<close>\<close>
  | ErrAuthFailed            \<comment> \<open>\<^verbatim>\<open>smtp.ErrAuthFailed\<close>\<close>
  | ErrAuthUnsupported       \<comment> \<open>\<^verbatim>\<open>smtp.ErrAuthUnsupported\<close>\<close>
  | ErrServerClosed          \<comment> \<open>\<^verbatim>\<open>smtp.ErrServerClosed\<close>\<close>
  | ErrDataTooLarge          \<comment> \<open>\<^verbatim>\<open>smtp.ErrDataTooLarge\<close>\<close>
  | ErrInvalidEmail          \<comment> \<open>\<^verbatim>\<open>errs.ErrInvalidEmail\<close>\<close>
  | ErrFromDisallowed        \<comment> \<open>\<^verbatim>\<open>errs.ErrFromDisallowed\<close>\<close>
  | ErrToDisallowed          \<comment> \<open>\<^verbatim>\<open>errs.ErrToDisallowed\<close>\<close>
  | ErrTooManyRecipients     \<comment> \<open>\<^verbatim>\<open>errs.ErrTooManyRecipients\<close>\<close>
  | Canceled                 \<comment> \<open>\<^verbatim>\<open>context.Canceled\<close>\<close>
  | DeadlineExceeded         \<comment> \<open>\<^verbatim>\<open>context.DeadlineExceeded\<close>\<close>
  | Errorf string            \<comment> \<open>\<^verbatim>\<open>fmt.Errorf\<close> of a message, \<^verbatim>\<open>errors.New\<close>, a library's error\<close>
  | Wrapped string error     \<comment> \<open>\<^verbatim>\<open>fmt.Errorf("...: %w", err)\<close>\<close>

text \<open>What a call does: it returns its \<^verbatim>\<open>error\<close> result, or it panics.\<close>

datatype outcome = Returns "error option" | Panics

subsection \<open>Integers and strings of the Go library\<close>

text \<open>The value an \<^verbatim>\<open>int64\<close> computation keeps of the mathematical result.\<close>

definition wrap64 :: "int \<Rightarrow> int" where
  "wrap64 k = (k + 2 ^ 63) mod 2 ^ 64 - 2 ^ 63"

text \<open>
  \<^verbatim>\<open>strings.Trim(s, cutset)\<close>: the leading and the trailing characters of the cutset are
  removed. The cutsets of the code are ASCII, where bytes and code points agree.
\<close>

definition Trim :: "string \<Rightarrow> string \<Rightarrow> string" where
  "Trim s cutset =
     rev (dropWhile (\<lambda>c. c \<in> set cutset) (rev (dropWhile (\<lambda>c. c \<in> set cutset) s)))"

text \<open>\<^verbatim>\<open>strings.HasSuffix\<close> compares bytes.\<close>

definition HasSuffix :: "string \<Rightarrow> string \<Rightarrow> bool" where
  "HasSuffix s suff =
     (length suff \<le> length s \<and> drop (length s - length suff) s = suff)"

text \<open>
  \<^verbatim>\<open>strings.EqualFold\<close> and \<^verbatim>\<open>strings.ToLower\<close> work by the case tables of Unicode.
  They belong to the Go library and are parameters of the session's methods: what is
  proved of the methods holds for every pair of functions.
\<close>

record strings_lib =
  EqualFold :: "string \<Rightarrow> string \<Rightarrow> bool"
  ToLower :: "string \<Rightarrow> string"

subsection \<open>Authenticators (\<^verbatim>\<open>pkg/auth/auth.go\<close>)\<close>

text \<open>
  The three implementations of the interface \<^verbatim>\<open>Authenticator\<close>, each with its
  \<^verbatim>\<open>credentials\<close> map. \<open>Check\<close> dispatches on the implementation.
  \<^verbatim>\<open>bcrypt.CompareHashAndPassword\<close> belongs to a library: \<open>Check\<close> takes it as the
  parameter \<open>bcrypt\<close>, with \<open>bcrypt hash password\<close> its \<^verbatim>\<open>error\<close> result.
\<close>

datatype Authenticator =
    AuthenticatorPlaintext "string \<rightharpoonup> string"
  | AuthenticatorHashed "string \<rightharpoonup> string"
  | AuthenticatorAlwaysAllow

fun Check :: "(string \<Rightarrow> string \<Rightarrow> error option) \<Rightarrow> Authenticator \<Rightarrow> string \<Rightarrow> string \<Rightarrow> bool" where
  "Check bcrypt (AuthenticatorPlaintext credentials) username password =
     (case credentials username of
        Some pw \<Rightarrow> password = pw
      | None \<Rightarrow> False)"
| "Check bcrypt (AuthenticatorHashed credentials) username password =
     (case credentials username of
        Some pw \<Rightarrow> bcrypt pw password = None
      | None \<Rightarrow> False)"
| "Check bcrypt AuthenticatorAlwaysAllow username password = True"

definition NewAuthenticatorPlaintext :: "(string \<rightharpoonup> string) \<Rightarrow> Authenticator" where
  "NewAuthenticatorPlaintext creds = AuthenticatorPlaintext creds"

text \<open>The source returns \<^verbatim>\<open>&AuthenticatorPlaintext{credentials: creds}\<close> here too.\<close>

definition NewAuthenticatorHashed :: "(string \<rightharpoonup> string) \<Rightarrow> Authenticator" where
  "NewAuthenticatorHashed creds = AuthenticatorPlaintext creds"

definition NewAuthenticatorAlwaysAllow :: Authenticator where
  "NewAuthenticatorAlwaysAllow = AuthenticatorAlwaysAllow"

subsection \<open>Configuration (\<^verbatim>\<open>package config\<close>)\<close>

text \<open>
  The structs that the package declares beside \<^verbatim>\<open>config.go\<close>, field by field. A
  \<^verbatim>\<open>uint16\<close> port is a natural number, a \<^verbatim>\<open>time.Duration\<close> a number of nanoseconds, a
  pointer that may be \<^verbatim>\<open>nil\<close> an option; \<^verbatim>\<open>net.IPNet\<close> has its two byte slices, and
  \<^verbatim>\<open>tls.Config\<close> is a type of the library. Two fields change their names: \<^verbatim>\<open>Auth\<close> of
  \<^verbatim>\<open>RecvGlobalConfig\<close> is \<open>Auth_cfg\<close>, since \<open>Auth\<close> is the session's method below, and
  \<^verbatim>\<open>Domain\<close> is \<open>Domain_cfg\<close>.
\<close>

type_synonym ListenerType = string

definition ListenerSMTP :: ListenerType where "ListenerSMTP = ''smtp''"
definition ListenerSMTPS :: ListenerType where "ListenerSMTPS = ''smtps''"
definition ListenerSTARTTLS :: ListenerType where "ListenerSTARTTLS = ''starttls''"

type_synonym AuthMode = string

definition AuthDisabled :: AuthMode where "AuthDisabled = ''disabled''"
definition AuthAnonymous :: AuthMode where "AuthAnonymous = ''anonymous''"
definition AuthPlain :: AuthMode where "AuthPlain = ''plain''"
definition AuthPlainAny :: AuthMode where "AuthPlainAny = ''plain-any''"

typedecl tls_Config

record net_IPNet =
  IP :: string
  Mask :: string

record TLSConfig =
  CertFile :: string
  KeyFile :: string

record ListenerConfig =
  Name :: string
  Port :: nat
  Type :: ListenerType
  RequireAuth :: bool
  TLS :: "TLSConfig option"
  TLSConfig :: "tls_Config option"

record Credential =
  Username :: string
  Password :: string

record AuthRule =
  Mode :: AuthMode
  Credentials :: "Credential list"

record MailPolicy =
  Addresses :: "string list"
  Domains :: "string list"

record RecvLimits =
  MaxSize :: int
  MaxRecipients :: int
  Timeout :: int

record RecvGlobalConfig =
  Domain_cfg :: string
  AllowedIPs :: "string list"
  AllowedNets :: "net_IPNet list"
  Auth_cfg :: AuthRule
  Authenticator :: Authenticator
  ValidFrom :: MailPolicy
  ValidTo :: MailPolicy
  Limits :: RecvLimits

subsection \<open>Sessions (\<^verbatim>\<open>pkg/receiver/session.go\<close>)\<close>

text \<open>
  The fields of \<^verbatim>\<open>Session\<close> that its methods read or write. \<open>ctx\<close> is what
  \<^verbatim>\<open>s.ctx.Err()\<close> returns when the command runs: \<open>None\<close> while the context is live.
  The logger, the identifier and the remote address take no part in any decision;
  of \<^verbatim>\<open>configSender\<close> the methods use the sender, which is a parameter of \<open>Data\<close>.
\<close>

record Session =
  ctx :: "error option"
  configListener :: ListenerConfig
  configGlobal :: RecvGlobalConfig
  authenticated :: bool
  emailSubject :: string
  emailFrom :: string
  emailTo :: "string list"
  emailBody :: string

definition sasl_Plain :: string where "sasl_Plain = ''PLAIN''"
definition sasl_Anonymous :: string where "sasl_Anonymous = ''ANONYMOUS''"

definition AuthMechanisms :: "Session \<Rightarrow> string list" where
  "AuthMechanisms s =
     (if \<not> RequireAuth (configListener s) then []
      else let mode = Mode (Auth_cfg (configGlobal s)) in
        if mode = AuthDisabled then []
        else if mode = AuthPlainAny \<or> mode = AuthPlain then [sasl_Plain]
        else if mode = AuthAnonymous then [sasl_Anonymous]
        else [])"

definition authPlain ::
  "(string \<Rightarrow> string \<Rightarrow> error option) \<Rightarrow> Session \<Rightarrow> string \<Rightarrow> string \<Rightarrow> string
     \<Rightarrow> error option \<times> Session" where
  "authPlain bcrypt s identity username password =
     (if Check bcrypt (Authenticator (configGlobal s)) username password
      then (None, s\<lparr>authenticated := True\<rparr>)
      else (Some ErrAuthFailed, s))"

definition authAnonymous :: "Session \<Rightarrow> string \<Rightarrow> error option \<times> Session" where
  "authAnonymous s identity = (None, s\<lparr>authenticated := True\<rparr>)"

text \<open>The server that \<open>Auth\<close> hands to the protocol engine runs one of the two above.\<close>

datatype sasl_Server = AnonymousServer | PlainServer

definition Auth :: "Session \<Rightarrow> string \<Rightarrow> error + sasl_Server" where
  "Auth s mech =
     (if ctx s \<noteq> None then Inl ErrServerClosed
      else if \<not> List.member (AuthMechanisms s) mech then Inl ErrAuthUnsupported
      else if mech = sasl_Anonymous then Inr AnonymousServer
      else if mech = sasl_Plain then Inr PlainServer
      else Inl ErrAuthUnsupported)"

text \<open>
  The two loops that \<open>Mail\<close> and \<open>Rcpt\<close> run over the addresses and the domains of a
  policy: \<^verbatim>\<open>valid\<close> becomes true when an address equals the given one up to case, or
  the given one ends with \<^verbatim>\<open>@\<close> and a domain, up to case.
\<close>

definition policy_valid :: "strings_lib \<Rightarrow> MailPolicy \<Rightarrow> string \<Rightarrow> bool" where
  "policy_valid lib p a =
     (list_ex (\<lambda>addr. EqualFold lib a addr) (Addresses p) \<or>
      list_ex (\<lambda>dom. HasSuffix (ToLower lib a) (''@'' @ ToLower lib dom)) (Domains p))"

definition Mail :: "strings_lib \<Rightarrow> Session \<Rightarrow> string \<Rightarrow> error option \<times> Session" where
  "Mail lib s from =
     (if RequireAuth (configListener s) \<and> \<not> authenticated s then (Some ErrAuthRequired, s)
      else if ctx s \<noteq> None then (Some ErrServerClosed, s)
      else let from = Trim from ''<>'' in
        if length from = 0 then (Some ErrInvalidEmail, s)
        else if (0 < length (Addresses (ValidFrom (configGlobal s))) \<or>
                 0 < length (Domains (ValidFrom (configGlobal s)))) \<and>
                \<not> policy_valid lib (ValidFrom (configGlobal s)) from
          then (Some ErrFromDisallowed, s)
        else (None, s\<lparr>emailFrom := from\<rparr>))"

definition Rcpt :: "strings_lib \<Rightarrow> Session \<Rightarrow> string \<Rightarrow> error option \<times> Session" where
  "Rcpt lib s to =
     (if RequireAuth (configListener s) \<and> \<not> authenticated s then (Some ErrAuthRequired, s)
      else if ctx s \<noteq> None then (Some ErrServerClosed, s)
      else let to = Trim to ''<>'' in
        if length to = 0 then (Some ErrInvalidEmail, s)
        else if (0 < length (Addresses (ValidTo (configGlobal s))) \<or>
                 0 < length (Domains (ValidTo (configGlobal s)))) \<and>
                \<not> policy_valid lib (ValidTo (configGlobal s)) to
          then (Some ErrToDisallowed, s)
        else if int (length (emailTo s)) \<ge> MaxRecipients (Limits (configGlobal s))
          then (Some ErrTooManyRecipients, s)
        else (None, s\<lparr>emailTo := emailTo s @ [to]\<rparr>))"

definition Reset :: "Session \<Rightarrow> Session" where
  "Reset s = s\<lparr>emailFrom := [], emailTo := [], emailBody := []\<rparr>"

definition Logout :: "Session \<Rightarrow> error option" where
  "Logout s = None"

text \<open>
  The transport that \<open>Data\<close> reads: the bytes that are available, and the error, if any,
  that a read meets once they are all consumed (\<open>None\<close>: the end of the stream).
\<close>

record io_Reader =
  avail :: string
  fail :: "error option"

text \<open>
  \<^verbatim>\<open>io.ReadAll(io.LimitReader(r, n))\<close>: the limited reader hands on at most \<open>n\<close> bytes
  of \<open>r\<close> and then reports the end of the stream without reading \<open>r\<close> again. The
  result is the data or the error, and the reader with what has been consumed removed.
\<close>

definition ReadAll_LimitReader :: "io_Reader \<Rightarrow> int \<Rightarrow> (error + string) \<times> io_Reader" where
  "ReadAll_LimitReader r n =
     (if n \<le> 0 then (Inr [], r)
      else if n \<le> int (length (avail r))
        then (Inr (take (nat n) (avail r)), r\<lparr>avail := drop (nat n) (avail r)\<rparr>)
      else case fail r of
             None \<Rightarrow> (Inr (avail r), r\<lparr>avail := []\<rparr>)
           | Some e \<Rightarrow> (Inl e, r\<lparr>avail := []\<rparr>))"

text \<open>
  What \<open>Data\<close> calls outside this package, as parameters: the message parser
  (\<^verbatim>\<open>mail.ReadMessage\<close>, giving the \<^verbatim>\<open>Subject\<close> header and what \<^verbatim>\<open>io.ReadAll\<close> reads of
  the body), the regular expression \<^verbatim>\<open>(?mi)^Subject:\s*(.+)$\<close> (the first submatch of
  \<^verbatim>\<open>FindSubmatch\<close>, and \<^verbatim>\<open>ReplaceAll\<close> with nothing), \<^verbatim>\<open>bytes.TrimSpace\<close>, the decoder of
  MIME encoded words, and the configured sender, which works on a world \<open>'w\<close> (the
  network, the clock, its own token).
\<close>

record mail_Message =
  Header_Subject :: string
  Body :: "error + string"

record 'w data_env =
  mail_ReadMessage :: "string \<Rightarrow> error + mail_Message"
  re_FindSubmatch :: "string \<Rightarrow> string option"
  re_ReplaceAll :: "string \<Rightarrow> string"
  bytes_TrimSpace :: "string \<Rightarrow> string"
  DecodeHeader :: "string \<Rightarrow> error + string"
  Sender_SendEmail ::
    "error option \<Rightarrow> string \<Rightarrow> string list \<Rightarrow> string \<Rightarrow> string \<Rightarrow> 'w \<Rightarrow> outcome \<times> 'w"

text \<open>Lines 224 to 259: the subject and the body that are taken from the data.\<close>

definition decoded :: "'w data_env \<Rightarrow> string \<Rightarrow> string" where
  "decoded env subject =
     (case DecodeHeader env subject of Inr d \<Rightarrow> d | Inl e \<Rightarrow> subject)"

definition parse_data :: "'w data_env \<Rightarrow> string \<Rightarrow> string \<times> string" where
  "parse_data env data =
     (case mail_ReadMessage env data of
        Inl e \<Rightarrow>
          (case re_FindSubmatch env data of
             Some m1 \<Rightarrow> (decoded env (bytes_TrimSpace env m1), re_ReplaceAll env data)
           | None \<Rightarrow> (''(no subject)'', data))
      | Inr msg \<Rightarrow>
          (let subject = (if Header_Subject msg \<noteq> [] then decoded env (Header_Subject msg)
                          else ''(no subject)'')
           in (subject, case Body msg of Inl e \<Rightarrow> data | Inr bodyBytes \<Rightarrow> bodyBytes)))"

text \<open>
  \<open>Data\<close> returns its result, the session, the reader after what was read, and the
  world after the sender ran.
\<close>

definition Data ::
  "'w data_env \<Rightarrow> Session \<Rightarrow> io_Reader \<Rightarrow> 'w \<Rightarrow> outcome \<times> Session \<times> io_Reader \<times> 'w" where
  "Data env s r w =
     (if RequireAuth (configListener s) \<and> \<not> authenticated s
        then (Returns (Some ErrAuthRequired), s, r, w)
      else if ctx s \<noteq> None then (Returns (Some ErrServerClosed), s, r, w)
      else case ReadAll_LimitReader r (wrap64 (MaxSize (Limits (configGlobal s)) + 1)) of
        (Inl err, r') \<Rightarrow> (Returns (Some err), s, r', w)
      | (Inr data, r') \<Rightarrow>
          if int (length data) > MaxSize (Limits (configGlobal s))
            then (Returns (Some ErrDataTooLarge), s, r', w)
          else let (subject, body) = parse_data env data;
                   s' = s\<lparr>emailSubject := subject, emailBody := body\<rparr>;
                   (res, w') = Sender_SendEmail env (ctx s') (emailFrom s') (emailTo s')
                                 (emailSubject s') (emailBody s') w
               in (res, s', r', w'))"

subsection \<open>Driving a session\<close>

text \<open>
  The protocol engine calls \<open>Rcpt\<close> once for each \<^verbatim>\<open>RCPT TO\<close> and goes on with the
  session whatever the result: \<open>Rcpts\<close> gives the results of the calls and the session
  after the last one.
\<close>

fun Rcpts :: "strings_lib \<Rightarrow> Session \<Rightarrow> string list \<Rightarrow> error option list \<times> Session" where
  "Rcpts lib s [] = ([], s)"
| "Rcpts lib s (to # tos) =
     (case Rcpt lib s to of (e, s') \<Rightarrow>
        (case Rcpts lib s' tos of (es, s'') \<Rightarrow> (e # es, s'')))"

text \<open>
  A recipient that passes every check of \<open>Rcpt\<close> before the one of the limit: the
  session may issue commands, the context is live, the address is not empty once
  trimmed, and the recipient policy, if there is one, allows it.
\<close>

definition rcpt_admissible :: "strings_lib \<Rightarrow> Session \<Rightarrow> string \<Rightarrow> bool" where
  "rcpt_admissible lib s to =
     ((authenticated s \<or> \<not> RequireAuth (configListener s)) \<and> ctx s = None \<and>
      Trim to ''<>'' \<noteq> [] \<and>
      ((Addresses (ValidTo (configGlobal s)) = [] \<and> Domains (ValidTo (configGlobal s)) = []) \<or>
       policy_valid lib (ValidTo (configGlobal s)) (Trim to ''<>'')))"

text \<open>The number of bytes taken from a transport, given the reader before and after.\<close>

definition bytes_read :: "io_Reader \<Rightarrow> io_Reader \<Rightarrow> nat" where
  "bytes_read r r' = length (avail r) - length (avail r')"

text \<open>
  For the examples, the library's two functions as they are on strings of ASCII
  bytes: \<^verbatim>\<open>A-Z\<close> become \<^verbatim>\<open>a-z\<close>, and two strings are equal under folding when their
  lowered forms are equal. The addresses of the examples are ASCII.
\<close>

definition lower_ascii :: "char \<Rightarrow> char" where
  "lower_ascii c =
     (let n = (of_char c :: nat) in if 65 \<le> n \<and> n \<le> 90 then char_of (n + 32) else c)"

definition strings_ascii :: strings_lib where
  "strings_ascii =
     \<lparr>EqualFold = (\<lambda>s t. map lower_ascii s = map lower_ascii t),
      ToLower = map lower_ascii\<rparr>"

text \<open>
  A configuration after the README's, with small limits; a listener that requires
  authentication and the session that \<^verbatim>\<open>NewSession\<close> creates on it; and an
  environment whose parser rejects the data, whose regular expression finds no subject
  and whose sender counts the messages it is given.
\<close>

definition example_config :: RecvGlobalConfig where
  "example_config =
     \<lparr>Domain_cfg = ''mail.example.local'',
      AllowedIPs = [],
      AllowedNets = [\<lparr>IP = [], Mask = []\<rparr>],
      Auth_cfg = \<lparr>Mode = AuthPlain,
                  Credentials = [\<lparr>Username = ''alice'', Password = ''Passw0rd1''\<rparr>]\<rparr>,
      Authenticator = NewAuthenticatorPlaintext [''alice'' \<mapsto> ''Passw0rd1''],
      ValidFrom = \<lparr>Addresses = [''user@example.com''], Domains = [''example.org'']\<rparr>,
      ValidTo = \<lparr>Addresses = [''a@example.com'', ''b@example.com''], Domains = [''example.org'']\<rparr>,
      Limits = \<lparr>MaxSize = 4, MaxRecipients = 2, Timeout = 30000000000\<rparr>\<rparr>"

definition example_listener :: ListenerConfig where
  "example_listener =
     \<lparr>Name = ''server-587'', Port = 587, Type = ListenerSTARTTLS, RequireAuth = True,
      TLS = Some \<lparr>CertFile = ''/path/to/cert.pem'', KeyFile = ''/path/to/key.pem''\<rparr>,
      TLSConfig = None\<rparr>"

definition example_session :: Session where
  "example_session =
     \<lparr>ctx = None, configListener = example_listener, configGlobal = example_config,
      authenticated = False, emailSubject = [], emailFrom = [], emailTo = [], emailBody = []\<rparr>"

definition example_env :: "nat data_env" where
  "example_env =
     \<lparr>mail_ReadMessage = (\<lambda>data. Inl (Errorf ''malformed header line'')),
      re_FindSubmatch = (\<lambda>data. None),
      re_ReplaceAll = (\<lambda>data. data),
      bytes_TrimSpace = (\<lambda>b. b),
      DecodeHeader = (\<lambda>h. Inr h),
      Sender_SendEmail = (\<lambda>c from to subject body sent. (Returns None, Suc sent))\<rparr>"

subsection \<open>The retry primitive (\<^verbatim>\<open>pkg/utils/utils.go\<close>)\<close>

text \<open>
  \<open>DoWithBackoff\<close> works on a world \<open>'w\<close>: whatever the operation changes, the state of
  the context, the random generator, the clock. What it asks of the world is a
  parameter: \<open>ctx_Err\<close> is \<^verbatim>\<open>ctx.Err()\<close>; \<open>rand_Int63\<close> is the generator's next value;
  \<open>select_After_Done\<close> is the \<^verbatim>\<open>select\<close> on \<^verbatim>\<open>time.After(sleep)\<close> and \<^verbatim>\<open>ctx.Done()\<close>,
  \<open>True\<close> when the timer's case is taken and \<open>False\<close> when the context's is.
\<close>

record 'w backoff_env =
  ctx_Err :: "'w \<Rightarrow> error option"
  rand_Int63 :: "'w \<Rightarrow> int \<times> 'w"
  select_After_Done :: "int \<Rightarrow> 'w \<Rightarrow> bool \<times> 'w"

text \<open>
  \<^verbatim>\<open>rand.Int63n(n)\<close> panics (\<open>None\<close>) when \<open>n\<close> is not positive, and otherwise gives a
  value of the half-open interval from 0 to \<open>n\<close>.
\<close>

definition Int63n :: "'w backoff_env \<Rightarrow> int \<Rightarrow> 'w \<Rightarrow> (int \<times> 'w) option" where
  "Int63n env n w =
     (if n \<le> 0 then None
      else case rand_Int63 env w of (v, w') \<Rightarrow> Some (v mod n, w'))"

text \<open>
  What a call of \<open>DoWithBackoff\<close> does, in order: an invocation of the operation with
  its result, and a wait of the given duration that the timer (\<open>True\<close>) or the context
  (\<open>False\<close>) ended.
\<close>

datatype event = Attempt "error option" | Sleep int bool

text \<open>
  The \<^verbatim>\<open>for\<close> loop at counter \<open>i\<close>, with \<open>err\<close> the variable of that name. The result is
  what the function does, the events from this iteration on, and the world at the end.
  \<^verbatim>\<open>1<<i\<close> and the product are \<^verbatim>\<open>int64\<close> computations; \<^verbatim>\<open>backoff / 4\<close> truncates
  towards zero.
\<close>

function loop ::
  "'w backoff_env \<Rightarrow> ('w \<Rightarrow> error option \<times> 'w) \<Rightarrow> int \<Rightarrow> int \<Rightarrow> nat \<Rightarrow> error option \<Rightarrow> 'w
     \<Rightarrow> outcome \<times> event list \<times> 'w" where
  "loop env operation attempts backoff i err w =
     (if \<not> int i < attempts then (Returns err, [], w)
      else case ctx_Err env w of
        Some err \<Rightarrow> (Returns (Some err), [], w)
      | None \<Rightarrow>
          (case operation w of
             (None, w1) \<Rightarrow> (Returns None, [Attempt None], w1)
           | (Some err, w1) \<Rightarrow>
               if int i \<ge> attempts then (Returns (Some err), [Attempt (Some err)], w1)
               else
                 (case Int63n env (backoff sdiv 4) w1 of
                    None \<Rightarrow> (Panics, [Attempt (Some err)], w1)
                  | Some (jitter, w2) \<Rightarrow>
                      (let sleep = wrap64 (wrap64 (backoff * wrap64 (2 ^ i)) + jitter) in
                       case select_After_Done env sleep w2 of
                         (False, w3) \<Rightarrow>
                           (Returns (ctx_Err env w3), [Attempt (Some err), Sleep sleep False], w3)
                       | (True, w3) \<Rightarrow>
                           (case loop env operation attempts backoff (Suc i) (Some err) w3 of
                              (res, evs, w4) \<Rightarrow>
                                (res, Attempt (Some err) # Sleep sleep True # evs, w4))))))"
  by pat_completeness auto
termination
  by (relation "measure (\<lambda>(env, operation, attempts, backoff, i, err, w). nat (attempts - int i))") auto

declare loop.simps [simp del]

definition DoWithBackoff ::
  "'w backoff_env \<Rightarrow> ('w \<Rightarrow> error option \<times> 'w) \<Rightarrow> int \<Rightarrow> int \<Rightarrow> 'w \<Rightarrow> outcome \<times> event list \<times> 'w" where
  "DoWithBackoff env operation attempts backoff w = loop env operation attempts backoff 0 None w"

subsection \<open>The Graph sender (\<^verbatim>\<open>pkg/sender/graph.go\<close>)\<close>

text \<open>
  The types of the sender. A time is a number of nanoseconds, as a duration is. The
  request and the response have the parts that the code sets or reads; \<open>ctx_timeout\<close>
  is the timeout of the context the request is made with, when
  \<^verbatim>\<open>context.WithTimeout\<close> derived it from the caller's. The sender's \<^verbatim>\<open>httpClient\<close> is
  the round trip of the environment below. The mutex orders concurrent refreshes and
  has no part in a sequential run.
\<close>

record AuthTokenResponse =
  AccessToken :: string
  TokenType :: string
  ExpiresIn :: int

record AuthToken =
  Token :: string
  ExpiresAt :: int

record EmailBody =
  ContentType :: string
  Content :: string

record EmailMessage =
  Subject :: string
  Body_msg :: EmailBody
  From :: string
  ToRecipients :: "string list"

record SendEmailErrorResponse =
  Error_Code :: string
  Error_Message :: string

record GraphSender =
  gs_token :: "AuthToken option"
  gs_mailbox :: string
  gs_tenantID :: string
  gs_clientID :: string
  gs_clientSecret :: string
  gs_retries :: int
  gs_backoff :: int

record http_Request =
  Method :: string
  URL :: string
  Header :: "(string \<times> string) list"
  Body_req :: string
  ctx_timeout :: "int option"

record http_Response =
  StatusCode :: int
  Status :: string
  Body_resp :: io_Reader

text \<open>
  What the sender calls in the libraries and the network, as parameters over a world
  \<open>'w\<close>: the clock, the construction of a request (its error, if any), the round trip of
  the HTTP client, and the encoders and decoders.
\<close>

record 'w net_env =
  time_Now :: "'w \<Rightarrow> int"
  http_NewRequest :: "string \<Rightarrow> string \<Rightarrow> error option"
  httpClient_Do :: "http_Request \<Rightarrow> 'w \<Rightarrow> (error + http_Response) \<times> 'w"
  form_Encode :: "(string \<times> string) list \<Rightarrow> string"
  url_PathEscape :: "string \<Rightarrow> string"
  json_Marshal :: "EmailMessage \<Rightarrow> error + string"
  json_Unmarshal_token :: "string \<Rightarrow> error + AuthTokenResponse"
  json_Unmarshal_error :: "string \<Rightarrow> error + SendEmailErrorResponse"

definition Second :: int where "Second = 1000000000"
definition Minute :: int where "Minute = 60 * Second"

text \<open>\<^verbatim>\<open>time.Until(t)\<close>: the duration from now to \<open>t\<close>, which saturates at the ends of \<^verbatim>\<open>int64\<close>.\<close>

definition time_Until :: "'w net_env \<Rightarrow> int \<Rightarrow> 'w \<Rightarrow> int" where
  "time_Until env t w = max (- (2 ^ 63)) (min (2 ^ 63 - 1) (t - time_Now env w))"

text \<open>Lines 57 to 73 of \<open>getAuthToken\<close>: the address and the request of a token.\<close>

definition tokenURL :: "GraphSender \<Rightarrow> string" where
  "tokenURL gs = ''https://login.microsoftonline.com/'' @ gs_tenantID gs @ ''/oauth2/v2.0/token''"

definition tokenRequest :: "'w net_env \<Rightarrow> GraphSender \<Rightarrow> int option \<Rightarrow> http_Request" where
  "tokenRequest env gs deadline =
     \<lparr>Method = ''POST'', URL = tokenURL gs,
      Header = [(''Content-Type'', ''application/x-www-form-urlencoded'')],
      Body_req = form_Encode env
        [(''grant_type'', ''client_credentials''),
         (''scope'', ''https://graph.microsoft.com/.default''),
         (''client_id'', gs_clientID gs),
         (''client_secret'', gs_clientSecret gs)],
      ctx_timeout = deadline\<rparr>"

definition getAuthToken ::
  "'w net_env \<Rightarrow> GraphSender \<Rightarrow> int option \<Rightarrow> 'w \<Rightarrow> (error + AuthToken) \<times> 'w" where
  "getAuthToken env gs deadline w =
     (case http_NewRequest env ''POST'' (tokenURL gs) of
        Some err \<Rightarrow> (Inl err, w)
      | None \<Rightarrow>
          (case httpClient_Do env (tokenRequest env gs deadline) w of
             (Inl err, w') \<Rightarrow> (Inl err, w')
           | (Inr resp, w') \<Rightarrow>
               if StatusCode resp \<noteq> 200
                 then (Inl (Errorf (''failed to get access token: '' @ Status resp)), w')
               else
                 (case fst (ReadAll_LimitReader (Body_resp resp) (2 ^ 20)) of
                    Inl err \<Rightarrow> (Inl err, w')
                  | Inr body \<Rightarrow>
                      (case json_Unmarshal_token env body of
                         Inl err \<Rightarrow> (Inl err, w')
                       | Inr tokenResp \<Rightarrow>
                           (Inr \<lparr>Token = AccessToken tokenResp,
                                 ExpiresAt = time_Now env w' + wrap64 (wrap64 (ExpiresIn tokenResp) * Second)\<rparr>,
                            w')))))"

definition getAuthTokenWithTimeout ::
  "'w net_env \<Rightarrow> GraphSender \<Rightarrow> int \<Rightarrow> 'w \<Rightarrow> (error + AuthToken) \<times> 'w" where
  "getAuthTokenWithTimeout env gs timeout w = getAuthToken env gs (Some timeout) w"

definition Authenticate :: "'w net_env \<Rightarrow> GraphSender \<Rightarrow> 'w \<Rightarrow> error option \<times> GraphSender \<times> 'w" where
  "Authenticate env gs w =
     (if (case gs_token gs of None \<Rightarrow> False
          | Some tok \<Rightarrow> time_Until env (ExpiresAt tok) w > 1 * Minute)
      then (None, gs, w)
      else case getAuthTokenWithTimeout env gs (10 * Second) w of
        (Inl err, w') \<Rightarrow> (Some (Wrapped ''authentication failed'' err), gs, w')
      | (Inr tok, w') \<Rightarrow> (None, gs\<lparr>gs_token := Some tok\<rparr>, w'))"

definition makeEmailRequest :: "string \<Rightarrow> string list \<Rightarrow> string \<Rightarrow> string \<Rightarrow> EmailMessage" where
  "makeEmailRequest from to subject body =
     \<lparr>Subject = subject, Body_msg = \<lparr>ContentType = ''HTML'', Content = body\<rparr>,
      From = from, ToRecipients = to\<rparr>"

text \<open>
  One delivery attempt, on the sender and the world. After a successful
  \<open>Authenticate\<close> the token is set, so the branch for a missing token is never taken;
  the error there stands for the nil dereference of \<^verbatim>\<open>gs.token.Token\<close>.
\<close>

definition sendEmailOnce ::
  "'w net_env \<Rightarrow> string \<Rightarrow> string list \<Rightarrow> string \<Rightarrow> string \<Rightarrow> GraphSender \<times> 'w
     \<Rightarrow> error option \<times> GraphSender \<times> 'w" where
  "sendEmailOnce env from to subject body st =
     (case Authenticate env (fst st) (snd st) of
        (Some err, gs, w) \<Rightarrow> (Some (Wrapped ''authentication failed'' err), gs, w)
      | (None, gs, w) \<Rightarrow>
          (let from = (if gs_mailbox gs \<noteq> [] then gs_mailbox gs else from);
               apiUrl = ''https://graph.microsoft.com/v1.0/users/'' @ url_PathEscape env from @ ''/sendMail''
           in case json_Marshal env (makeEmailRequest from to subject body) of
             Inl err \<Rightarrow> (Some (Wrapped ''failed to marshal email request'' err), gs, w)
           | Inr emailReqData \<Rightarrow>
               (case http_NewRequest env ''POST'' apiUrl of
                  Some err \<Rightarrow> (Some err, gs, w)
                | None \<Rightarrow>
                    (case gs_token gs of
                       None \<Rightarrow> (Some (Errorf ''nil pointer dereference''), gs, w)
                     | Some tok \<Rightarrow>
                    (case httpClient_Do env
                            \<lparr>Method = ''POST'', URL = apiUrl,
                             Header = [(''Authorization'', ''Bearer '' @ Token tok),
                                       (''Content-Type'', ''application/json'')],
                             Body_req = emailReqData, ctx_timeout = None\<rparr> w of
                       (Inl err, w') \<Rightarrow> (Some (Wrapped ''failed to send email'' err), gs, w')
                     | (Inr resp, w') \<Rightarrow>
                         (case fst (ReadAll_LimitReader (Body_resp resp) (10 * 2 ^ 20)) of
                            Inl err \<Rightarrow> (Some (Wrapped ''failed to read email send response'' err), gs, w')
                          | Inr respData \<Rightarrow>
                              if StatusCode resp \<noteq> 202 then
                                (case json_Unmarshal_error env respData of
                                   Inl err \<Rightarrow> (Some (Errorf (''failed to send email: '' @ Status resp)), gs, w')
                                 | Inr errorResp \<Rightarrow>
                                     (Some (Errorf (''failed to send email ('' @ Error_Code errorResp @ ''): ''
                                                     @ Error_Message errorResp)), gs, w'))
                              else (None, gs, w')))))))"

text \<open>
  \<open>SendEmail\<close> retries the attempt: the world of \<open>DoWithBackoff\<close> is the sender with the
  world of the network, and the attempts and the backoff are the sender's \<open>retries\<close>
  and \<open>backoff\<close>.
\<close>

definition SendEmail ::
  "(GraphSender \<times> 'w) backoff_env \<Rightarrow> 'w net_env \<Rightarrow> string \<Rightarrow> string list \<Rightarrow> string \<Rightarrow> string
     \<Rightarrow> GraphSender \<times> 'w \<Rightarrow> outcome \<times> event list \<times> GraphSender \<times> 'w" where
  "SendEmail benv env from to subject body st =
     DoWithBackoff benv (sendEmailOnce env from to subject body)
       (gs_retries (fst st)) (gs_backoff (fst st)) st"

subsection \<open>Scripted runs\<close>

text \<open>
  A world for running \<open>DoWithBackoff\<close> as a test does: it counts the invocations of the
  operation and the waits. A script says what each invocation returns, what the
  generator draws, and during which wait, if any, the context is cancelled (and with
  which error); a wait during which the context is cancelled ends by \<^verbatim>\<open>ctx.Done()\<close>.
\<close>

record sim =
  calls :: nat
  sleeps :: nat
  cancelled :: "error option"

record script =
  result_of :: "nat \<Rightarrow> error option"
  random_of :: "nat \<Rightarrow> int"
  cancel_in_sleep :: "nat \<Rightarrow> error option"

definition sim_env :: "script \<Rightarrow> sim backoff_env" where
  "sim_env sc =
     \<lparr>ctx_Err = cancelled,
      rand_Int63 = (\<lambda>w. (random_of sc (sleeps w), w)),
      select_After_Done = (\<lambda>d w.
        case cancel_in_sleep sc (sleeps w) of
          None \<Rightarrow> (True, w\<lparr>sleeps := Suc (sleeps w)\<rparr>)
        | Some e \<Rightarrow> (False, w\<lparr>sleeps := Suc (sleeps w), cancelled := Some e\<rparr>))\<rparr>"

definition sim_operation :: "script \<Rightarrow> sim \<Rightarrow> error option \<times> sim" where
  "sim_operation sc w = (result_of sc (calls w), w\<lparr>calls := Suc (calls w)\<rparr>)"

definition sim_start :: sim where
  "sim_start = \<lparr>calls = 0, sleeps = 0, cancelled = None\<rparr>"

text \<open>
  Three scripts: an operation that always fails, one that fails twice and then
  succeeds, and one that always fails under a context cancelled during the second wait.
\<close>

definition always_fails :: script where
  "always_fails = \<lparr>result_of = (\<lambda>n. Some (Errorf ''boom'')), random_of = (\<lambda>n. 123456789),
     cancel_in_sleep = (\<lambda>n. None)\<rparr>"




text \<open>
  A network for the sender whose world is the number of requests made so far: the
  first request meets a transport error, the second a 503, the third a body that is not
  a token, the later ones a token valid for an hour. The clock stands at 1000 s. The
  example sender holds a token that expires 30 s from then.
\<close>

definition example_net :: "nat net_env" where
  "example_net =
     \<lparr>time_Now = (\<lambda>n. 1000 * Second),
      http_NewRequest = (\<lambda>method url. None),
      httpClient_Do = (\<lambda>req n.
        (if n = 0 then Inl (Errorf ''dial tcp: connection refused'')
         else if n = 1 then Inr \<lparr>StatusCode = 503, Status = ''503 Service Unavailable'',
                                 Body_resp = \<lparr>avail = [], fail = None\<rparr>\<rparr>
         else if n = 2 then Inr \<lparr>StatusCode = 200, Status = ''200 OK'',
                                 Body_resp = \<lparr>avail = ''<html>'', fail = None\<rparr>\<rparr>
         else Inr \<lparr>StatusCode = 200, Status = ''200 OK'',
                   Body_resp = \<lparr>avail = ''token'', fail = None\<rparr>\<rparr>,
         Suc n)),
      form_Encode = (\<lambda>kvs. concat (map (\<lambda>(k, v). k @ ''='' @ v @ ''&'') kvs)),
      url_PathEscape = (\<lambda>s. s),
      json_Marshal = (\<lambda>m. Inr (Subject m @ Content (Body_msg m))),
      json_Unmarshal_token = (\<lambda>body.
        if body = ''token'' then Inr \<lparr>AccessToken = ''abc'', TokenType = ''Bearer'', ExpiresIn = 3600\<rparr>
        else Inl (Errorf ''invalid character'')),
      json_Unmarshal_error = (\<lambda>body. Inl (Errorf ''invalid character''))\<rparr>"

definition example_sender :: GraphSender where
  "example_sender =
     \<lparr>gs_token = Some \<lparr>Token = ''old'', ExpiresAt = 1030 * Second\<rparr>,
      gs_mailbox = ''notifications@example.com'',
      gs_tenantID = ''0564701c'', gs_clientID = ''a8a5c463'', gs_clientSecret = ''secret'',
      gs_retries = 3, gs_backoff = 5 * Second\<rparr>"

definition example_backoff_env :: "(GraphSender \<times> nat) backoff_env" where
  "example_backoff_env =
     \<lparr>ctx_Err = (\<lambda>st. None), rand_Int63 = (\<lambda>st. (123456789, st)),
      select_After_Done = (\<lambda>d st. (True, st))\<rparr>"

section \<open>Properties\<close>

subsection \<open>Sessions\<close>

text \<open>
  C1. The claim: with a cancelled context every session command fails with
  \<open>ErrServerClosed\<close> before any other validation, also for an unauthenticated session
  on a listener that requires authentication. \<open>Auth\<close> does so. \<open>Mail\<close>, \<open>Rcpt\<close> and
  \<open>Data\<close> test the authentication requirement first and the context second: with a
  cancelled context they return \<open>ErrAuthRequired\<close> when the listener requires
  authentication and the session has none, and \<open>ErrServerClosed\<close> otherwise, in both
  cases before the address, the policy, the limits or the data are looked at (the
  session, the reader and the world are as before).
\<close>

theorem cancelled_context_rejects:
  assumes "ctx s = Some e"
  shows "Auth s mech = Inl ErrServerClosed \<and>
         Mail lib s from =
           (Some (if RequireAuth (configListener s) \<and> \<not> authenticated s
                  then ErrAuthRequired else ErrServerClosed), s) \<and>
         Rcpt lib s to =
           (Some (if RequireAuth (configListener s) \<and> \<not> authenticated s
                  then ErrAuthRequired else ErrServerClosed), s) \<and>
         Data env s r w =
           (Returns (Some (if RequireAuth (configListener s) \<and> \<not> authenticated s
                           then ErrAuthRequired else ErrServerClosed)), s, r, w)"
  using assms by (simp add: Auth_def Mail_def Rcpt_def Data_def)

theorem cancelled_context_rejects_witness:
  "Auth (example_session\<lparr>ctx := Some Canceled, authenticated := True\<rparr>) sasl_Plain
     = Inl ErrServerClosed \<and>
   fst (Mail strings_ascii (example_session\<lparr>ctx := Some Canceled, authenticated := True\<rparr>) ''<user@example.com>'')
     = Some ErrServerClosed \<and>
   fst (Rcpt strings_ascii (example_session\<lparr>ctx := Some Canceled, authenticated := True\<rparr>) ''<a@example.com>'')
     = Some ErrServerClosed \<and>
   fst (Data example_env (example_session\<lparr>ctx := Some Canceled, authenticated := True\<rparr>)
          \<lparr>avail = ''abc'', fail = None\<rparr> 0)
     = Returns (Some ErrServerClosed)"
  using cancelled_context_rejects
    [of "example_session\<lparr>ctx := Some Canceled, authenticated := True\<rparr>" Canceled
        sasl_Plain strings_ascii "''<user@example.com>''" "''<a@example.com>''" example_env
        "\<lparr>avail = ''abc'', fail = None\<rparr>" 0]
  by (simp add: example_session_def example_listener_def)

theorem cancelled_unauthenticated_counterexample:
  "fst (Mail strings_ascii (example_session\<lparr>ctx := Some Canceled\<rparr>) ''<user@example.com>'') = Some ErrAuthRequired \<and>
   fst (Rcpt strings_ascii (example_session\<lparr>ctx := Some Canceled\<rparr>) ''<a@example.com>'') = Some ErrAuthRequired \<and>
   fst (Data example_env (example_session\<lparr>ctx := Some Canceled\<rparr>) \<lparr>avail = ''abc'', fail = None\<rparr> 0)
     = Returns (Some ErrAuthRequired) \<and>
   Some ErrAuthRequired \<noteq> Some ErrServerClosed"
  by (simp add: Mail_def Rcpt_def Data_def example_session_def example_listener_def)

text \<open>
  C2. The claim: a successful \<open>Mail\<close> records the sender and clears the recipients.
  The code records the trimmed sender and changes nothing else: the recipients are
  the ones from before the call (only \<open>Reset\<close> clears them).
\<close>

theorem Mail_keeps_recipients:
  assumes "fst (Mail lib s from) = None"
  shows "snd (Mail lib s from) = s\<lparr>emailFrom := Trim from ''<>''\<rparr> \<and>
         emailTo (snd (Mail lib s from)) = emailTo s"
  using assms by (auto simp: Mail_def Let_def split: if_splits)

theorem Mail_keeps_recipients_counterexample:
  "fst (Mail strings_ascii (example_session\<lparr>authenticated := True, emailTo := [''a@example.com'']\<rparr>)
          ''<user@example.com>'') = None \<and>
   emailTo (snd (Mail strings_ascii (example_session\<lparr>authenticated := True, emailTo := [''a@example.com'']\<rparr>)
          ''<user@example.com>'')) \<noteq> []"
  by (simp add: Mail_def example_session_def example_listener_def example_config_def Trim_def policy_valid_def
      strings_ascii_def lower_ascii_def HasSuffix_def Let_def)

theorem Mail_keeps_recipients_witness:
  "snd (Mail strings_ascii (example_session\<lparr>authenticated := True, emailTo := [''a@example.com'']\<rparr>)
          ''<user@example.com>'')
     = example_session\<lparr>authenticated := True, emailTo := [''a@example.com''],
          emailFrom := ''user@example.com''\<rparr>"
proof -
  have ok: "fst (Mail strings_ascii (example_session\<lparr>authenticated := True, emailTo := [''a@example.com'']\<rparr>)
          ''<user@example.com>'') = None"
    by (simp add: Mail_def example_session_def example_listener_def example_config_def Trim_def policy_valid_def
      strings_ascii_def lower_ascii_def HasSuffix_def Let_def)
  show ?thesis
    using Mail_keeps_recipients [OF ok] by (simp add: Trim_def example_session_def example_listener_def)
qed

text \<open>Facts about \<open>Rcpt\<close> and about runs of it.\<close>

lemma Rcpt_frame:
  "ctx (snd (Rcpt lib s to)) = ctx s \<and> configListener (snd (Rcpt lib s to)) = configListener s \<and>
   configGlobal (snd (Rcpt lib s to)) = configGlobal s \<and> authenticated (snd (Rcpt lib s to)) = authenticated s"
  by (simp add: Rcpt_def Let_def)

lemma Rcpt_count:
  "int (length (emailTo s)) \<le> MaxRecipients (Limits (configGlobal s)) \<Longrightarrow>
   int (length (emailTo (snd (Rcpt lib s to)))) \<le> MaxRecipients (Limits (configGlobal s))"
  by (simp add: Rcpt_def Let_def)

lemma snd_Rcpts_Cons:
  "snd (Rcpts lib s (to # tos)) = snd (Rcpts lib (snd (Rcpt lib s to)) tos)"
  by (simp split: prod.splits)

lemma Rcpts_count:
  "int (length (emailTo s)) \<le> MaxRecipients (Limits (configGlobal s)) \<Longrightarrow>
   int (length (emailTo (snd (Rcpts lib s tos)))) \<le> MaxRecipients (Limits (configGlobal s))"
proof (induction tos arbitrary: s)
  case Nil
  then show ?case by simp
next
  case (Cons to tos)
  have "int (length (emailTo (snd (Rcpt lib s to)))) \<le> MaxRecipients (Limits (configGlobal (snd (Rcpt lib s to))))"
    using Rcpt_count [OF Cons.prems] by (simp add: Rcpt_frame)
  from Cons.IH [OF this] show ?case
    by (simp only: snd_Rcpts_Cons Rcpt_frame)
qed

lemma Rcpt_admissible_accepts:
  assumes "rcpt_admissible lib s to"
    and "int (length (emailTo s)) < MaxRecipients (Limits (configGlobal s))"
  shows "Rcpt lib s to = (None, s\<lparr>emailTo := emailTo s @ [Trim to ''<>'']\<rparr>)"
  using assms by (auto simp: Rcpt_def rcpt_admissible_def Let_def)

lemma Rcpt_admissible_full:
  assumes "rcpt_admissible lib s to"
    and "int (length (emailTo s)) \<ge> MaxRecipients (Limits (configGlobal s))"
  shows "Rcpt lib s to = (Some ErrTooManyRecipients, s)"
  using assms by (auto simp: Rcpt_def rcpt_admissible_def Let_def)

lemma rcpt_admissible_emailTo [simp]:
  "rcpt_admissible lib (s\<lparr>emailTo := x\<rparr>) to = rcpt_admissible lib s to"
  by (simp add: rcpt_admissible_def)

lemma Rcpts_admissible_accepts:
  assumes "\<forall>to \<in> set tos. rcpt_admissible lib s to"
    and "int (length (emailTo s) + length tos) \<le> MaxRecipients (Limits (configGlobal s))"
  shows "Rcpts lib s tos =
           (replicate (length tos) None, s\<lparr>emailTo := emailTo s @ map (\<lambda>to. Trim to ''<>'') tos\<rparr>)"
  using assms
proof (induction tos arbitrary: s)
  case Nil
  then show ?case by simp
next
  case (Cons to tos)
  let ?s' = "s\<lparr>emailTo := emailTo s @ [Trim to ''<>'']\<rparr>"
  have step: "Rcpt lib s to = (None, ?s')"
    using Cons.prems by (intro Rcpt_admissible_accepts) auto
  have "Rcpts lib ?s' tos =
          (replicate (length tos) None, ?s'\<lparr>emailTo := emailTo ?s' @ map (\<lambda>to. Trim to ''<>'') tos\<rparr>)"
    using Cons.prems by (intro Cons.IH) auto
  with step show ?case by simp
qed

text \<open>
  C7. With \<open>MaxRecipients\<close> = N: a session that holds at most N recipients holds at
  most N after any sequence of \<open>Rcpt\<close> calls; and from no recipients, N admissible
  recipients are all accepted and recorded in order, a further admissible one fails
  with \<open>ErrTooManyRecipients\<close> and leaves the session as it was, with exactly N recipients.
\<close>

theorem recipient_limit:
  "(int (length (emailTo s)) \<le> MaxRecipients (Limits (configGlobal s)) \<longrightarrow>
      int (length (emailTo (snd (Rcpts lib s any)))) \<le> MaxRecipients (Limits (configGlobal s))) \<and>
   (emailTo s = [] \<and> int (length tos) = MaxRecipients (Limits (configGlobal s)) \<and>
    (\<forall>to \<in> set (extra # tos). rcpt_admissible lib s to) \<longrightarrow>
      fst (Rcpts lib s tos) = replicate (length tos) None \<and>
      emailTo (snd (Rcpts lib s tos)) = map (\<lambda>to. Trim to ''<>'') tos \<and>
      Rcpt lib (snd (Rcpts lib s tos)) extra = (Some ErrTooManyRecipients, snd (Rcpts lib s tos)) \<and>
      int (length (emailTo (snd (Rcpt lib (snd (Rcpts lib s tos)) extra)))) = MaxRecipients (Limits (configGlobal s)))"
proof (intro conjI impI)
  assume "int (length (emailTo s)) \<le> MaxRecipients (Limits (configGlobal s))"
  then show "int (length (emailTo (snd (Rcpts lib s any)))) \<le> MaxRecipients (Limits (configGlobal s))"
    by (rule Rcpts_count)
next
  assume a: "emailTo s = [] \<and> int (length tos) = MaxRecipients (Limits (configGlobal s)) \<and>
    (\<forall>to \<in> set (extra # tos). rcpt_admissible lib s to)"
  then have run: "Rcpts lib s tos =
      (replicate (length tos) None, s\<lparr>emailTo := emailTo s @ map (\<lambda>to. Trim to ''<>'') tos\<rparr>)"
    by (intro Rcpts_admissible_accepts) auto
  show "fst (Rcpts lib s tos) = replicate (length tos) None"
    by (simp add: run)
  show to: "emailTo (snd (Rcpts lib s tos)) = map (\<lambda>to. Trim to ''<>'') tos"
    using a by (simp add: run)
  show full: "Rcpt lib (snd (Rcpts lib s tos)) extra = (Some ErrTooManyRecipients, snd (Rcpts lib s tos))"
    using a by (intro Rcpt_admissible_full) (auto simp: run)
  show "int (length (emailTo (snd (Rcpt lib (snd (Rcpts lib s tos)) extra)))) = MaxRecipients (Limits (configGlobal s))"
    using a by (simp add: full to)
qed

theorem recipient_limit_witness:
  "fst (Rcpts strings_ascii (example_session\<lparr>authenticated := True\<rparr>) [''<a@example.com>'', ''<Bob@Example.ORG>''])
     = [None, None] \<and>
   emailTo (snd (Rcpts strings_ascii (example_session\<lparr>authenticated := True\<rparr>) [''<a@example.com>'', ''<Bob@Example.ORG>'']))
     = [''a@example.com'', ''Bob@Example.ORG''] \<and>
   fst (Rcpt strings_ascii (snd (Rcpts strings_ascii (example_session\<lparr>authenticated := True\<rparr>)
                     [''<a@example.com>'', ''<Bob@Example.ORG>''])) ''<b@example.com>'')
     = Some ErrTooManyRecipients \<and>
   length (emailTo (snd (Rcpt strings_ascii (snd (Rcpts strings_ascii (example_session\<lparr>authenticated := True\<rparr>)
                     [''<a@example.com>'', ''<Bob@Example.ORG>''])) ''<b@example.com>''))) = 2 \<and>
   length (emailTo (snd (Rcpts strings_ascii (example_session\<lparr>authenticated := True\<rparr>)
                     [''<a@example.com>'', [], ''<b@example.com>'', ''<c@example.org>'', ''<d@example.org>'']))) \<le> 2"
proof -
  let ?s = "example_session\<lparr>authenticated := True\<rparr>"
  have adm: "\<forall>to \<in> set [''<b@example.com>'', ''<a@example.com>'', ''<Bob@Example.ORG>'']. rcpt_admissible strings_ascii ?s to"
    by (simp add: rcpt_admissible_def example_session_def example_listener_def example_config_def Trim_def
        policy_valid_def strings_ascii_def lower_ascii_def HasSuffix_def Let_def
        char_of_def bit_Suc_0_iff)
  let ?calls = "[''<a@example.com>'', [], ''<b@example.com>'', ''<c@example.org>'', ''<d@example.org>'']"
  let ?tos = "[''<a@example.com>'', ''<Bob@Example.ORG>'']"
  have pre1: "int (length (emailTo ?s)) \<le> MaxRecipients (Limits (configGlobal ?s))"
    by (simp add: example_session_def example_listener_def example_config_def)
  have pre2: "emailTo ?s = [] \<and> int (length ?tos) = MaxRecipients (Limits (configGlobal ?s)) \<and>
      (\<forall>to \<in> set (''<b@example.com>'' # ?tos). rcpt_admissible strings_ascii ?s to)"
    using adm by (simp add: example_session_def example_listener_def example_config_def)
  from recipient_limit [where lib = strings_ascii and s = ?s and any = ?calls and tos = ?tos
      and extra = "''<b@example.com>''"] pre1 pre2
  have "int (length (emailTo (snd (Rcpts strings_ascii ?s ?calls)))) \<le> MaxRecipients (Limits (configGlobal ?s)) \<and>
      fst (Rcpts strings_ascii ?s ?tos) = replicate (length ?tos) None \<and>
      emailTo (snd (Rcpts strings_ascii ?s ?tos)) = map (\<lambda>to. Trim to ''<>'') ?tos \<and>
      Rcpt strings_ascii (snd (Rcpts strings_ascii ?s ?tos)) ''<b@example.com>'' = (Some ErrTooManyRecipients, snd (Rcpts strings_ascii ?s ?tos)) \<and>
      int (length (emailTo (snd (Rcpt strings_ascii (snd (Rcpts strings_ascii ?s ?tos)) ''<b@example.com>'')))) =
        MaxRecipients (Limits (configGlobal ?s))"
    by blast
  moreover have "MaxRecipients (Limits (configGlobal ?s)) = 2"
    by (simp add: example_session_def example_listener_def example_config_def)
  ultimately show ?thesis
    by (simp add: Trim_def del: Rcpts.simps)
qed

text \<open>Facts about the limited read.\<close>

lemma ReadAll_LimitReader_read:
  "int (bytes_read r (snd (ReadAll_LimitReader r n))) \<le> max 0 n"
  by (auto simp: ReadAll_LimitReader_def bytes_read_def split: option.splits)

lemma wrap64_id: "- (2 ^ 63) \<le> k \<Longrightarrow> k < 2 ^ 63 \<Longrightarrow> wrap64 k = k"
  by (simp add: wrap64_def)

lemma wrap64_le: "0 \<le> k \<Longrightarrow> wrap64 k \<le> k"
proof -
  assume "0 \<le> k"
  then have "(k + 2 ^ 63) mod 2 ^ 64 \<le> k + 2 ^ 63"
    by (intro zmod_le_nonneg_dividend) simp
  then show ?thesis by (simp add: wrap64_def)
qed

lemma Data_reader:
  "fst (snd (snd (Data env s r w))) = r \<or>
   fst (snd (snd (Data env s r w))) =
     snd (ReadAll_LimitReader r (wrap64 (MaxSize (Limits (configGlobal s)) + 1)))"
  by (simp add: Data_def Let_def split: prod.splits sum.splits)

text \<open>
  C8. With \<open>MaxSize\<close> = M, at least 0: \<open>Data\<close> takes at most M + 1 bytes from the
  transport. For a session that may issue commands on a live context, and M below the
  largest \<^verbatim>\<open>int\<close>: a payload of exactly M bytes passes the size check, its subject and
  body go to the sender and the sender's result is the result of \<open>Data\<close>; with more
  than M bytes available \<open>Data\<close> fails with \<open>ErrDataTooLarge\<close> after M + 1 bytes, and
  the sender is not called.
\<close>

theorem data_size_limit:
  assumes "0 \<le> MaxSize (Limits (configGlobal s))"
  shows
  "int (bytes_read r (fst (snd (snd (Data env s r w))))) \<le> MaxSize (Limits (configGlobal s)) + 1 \<and>
   ((authenticated s \<or> \<not> RequireAuth (configListener s)) \<and> ctx s = None \<and>
     MaxSize (Limits (configGlobal s)) < 2 ^ 63 - 1 \<longrightarrow>
     (int (length (avail r)) = MaxSize (Limits (configGlobal s)) \<and> fail r = None \<longrightarrow>
        Data env s r w =
          (let (subject, body) = parse_data env (avail r);
               (res, w') = Sender_SendEmail env (ctx s) (emailFrom s) (emailTo s) subject body w
           in (res, s\<lparr>emailSubject := subject, emailBody := body\<rparr>, r\<lparr>avail := []\<rparr>, w'))) \<and>
     (int (length (avail r)) > MaxSize (Limits (configGlobal s)) \<longrightarrow>
        fst (Data env s r w) = Returns (Some ErrDataTooLarge) \<and>
        snd (snd (snd (Data env s r w))) = w \<and>
        int (bytes_read r (fst (snd (snd (Data env s r w))))) = MaxSize (Limits (configGlobal s)) + 1))"
proof -
  let ?M = "MaxSize (Limits (configGlobal s))"
  have "wrap64 (?M + 1) \<le> ?M + 1"
    using assms by (intro wrap64_le) simp
  then have rd: "int (bytes_read r (snd (ReadAll_LimitReader r (wrap64 (?M + 1))))) \<le> ?M + 1"
    using ReadAll_LimitReader_read [of r "wrap64 (?M + 1)"] assms by simp
  have "int (bytes_read r r) \<le> ?M + 1"
    using assms by (simp add: bytes_read_def)
  with rd have first: "int (bytes_read r (fst (snd (snd (Data env s r w))))) \<le> ?M + 1"
    using Data_reader [of env s r w] by auto
  have second: "Data env s r w =
          (let (subject, body) = parse_data env (avail r);
               (res, w') = Sender_SendEmail env (ctx s) (emailFrom s) (emailTo s) subject body w
           in (res, s\<lparr>emailSubject := subject, emailBody := body\<rparr>, r\<lparr>avail := []\<rparr>, w'))"
    if "authenticated s \<or> \<not> RequireAuth (configListener s)" "ctx s = None" "?M < 2 ^ 63 - 1"
      "int (length (avail r)) = ?M" "fail r = None"
  proof -
    have "wrap64 (?M + 1) = ?M + 1"
      using assms that by (intro wrap64_id) simp_all
    then show ?thesis
      using that by (auto simp: Data_def ReadAll_LimitReader_def Let_def split: prod.splits)
  qed
  have third: "fst (Data env s r w) = Returns (Some ErrDataTooLarge) \<and>
        snd (snd (snd (Data env s r w))) = w \<and>
        int (bytes_read r (fst (snd (snd (Data env s r w))))) = ?M + 1"
    if "authenticated s \<or> \<not> RequireAuth (configListener s)" "ctx s = None" "?M < 2 ^ 63 - 1"
      "int (length (avail r)) > ?M"
  proof -
    have "wrap64 (?M + 1) = ?M + 1"
      using assms that by (intro wrap64_id) simp_all
    then show ?thesis
      using that assms by (auto simp: Data_def ReadAll_LimitReader_def bytes_read_def)
  qed
  from first second third show ?thesis by blast
qed

theorem data_size_limit_witness:
  "Data example_env (example_session\<lparr>authenticated := True\<rparr>) \<lparr>avail = ''abcd'', fail = None\<rparr> 0 =
     (Returns None,
      example_session\<lparr>authenticated := True, emailSubject := ''(no subject)'', emailBody := ''abcd''\<rparr>,
      \<lparr>avail = [], fail = None\<rparr>, 1) \<and>
   fst (Data example_env (example_session\<lparr>authenticated := True\<rparr>) \<lparr>avail = ''abcde'', fail = None\<rparr> 0)
     = Returns (Some ErrDataTooLarge) \<and>
   snd (snd (snd (Data example_env (example_session\<lparr>authenticated := True\<rparr>)
     \<lparr>avail = ''abcde'', fail = None\<rparr> 0))) = 0 \<and>
   bytes_read \<lparr>avail = ''abcdefgh'', fail = None\<rparr>
     (fst (snd (snd (Data example_env (example_session\<lparr>authenticated := True\<rparr>)
        \<lparr>avail = ''abcdefgh'', fail = None\<rparr> 0)))) \<le> 5"
proof -
  let ?s = "example_session\<lparr>authenticated := True\<rparr>"
  let ?r4 = "\<lparr>avail = ''abcd'', fail = None\<rparr>"
  let ?r5 = "\<lparr>avail = ''abcde'', fail = None\<rparr>"
  let ?r8 = "\<lparr>avail = ''abcdefgh'', fail = None\<rparr>"
  have M: "MaxSize (Limits (configGlobal ?s)) = 4"
    by (simp add: example_session_def example_listener_def example_config_def)
  have pre: "0 \<le> MaxSize (Limits (configGlobal ?s))"
    by (simp only: M; simp)
  have ok: "(authenticated ?s \<or> \<not> RequireAuth (configListener ?s)) \<and> ctx ?s = None \<and>
     MaxSize (Limits (configGlobal ?s)) < 2 ^ 63 - 1"
    by (simp add: example_session_def example_listener_def example_config_def)
  have len4: "int (length (avail ?r4)) = MaxSize (Limits (configGlobal ?s)) \<and> fail ?r4 = None"
    by (simp only: M; simp)
  have len5: "int (length (avail ?r5)) > MaxSize (Limits (configGlobal ?s))"
    by (simp only: M; simp)
  note exact = data_size_limit [OF pre, of ?r4 example_env 0, THEN conjunct2, THEN mp, OF ok,
      THEN conjunct1, THEN mp, OF len4]
  note over = data_size_limit [OF pre, of ?r5 example_env 0, THEN conjunct2, THEN mp, OF ok,
      THEN conjunct2, THEN mp, OF len5]
  note most = data_size_limit [OF pre, of ?r8 example_env 0, THEN conjunct1]
  have "Data example_env ?s ?r4 0 =
     (Returns None, ?s\<lparr>emailSubject := ''(no subject)'', emailBody := ''abcd''\<rparr>,
      \<lparr>avail = [], fail = None\<rparr>, 1)"
    by (simp only: exact) (simp add: parse_data_def example_env_def example_session_def example_listener_def)
  moreover have "bytes_read ?r8 (fst (snd (snd (Data example_env ?s ?r8 0)))) \<le> 5"
    using most by (simp only: M; simp)
  ultimately show ?thesis
    using over by simp
qed

subsection \<open>Authenticators\<close>

text \<open>
  C6. The claim: the authenticator of the hashed-variant constructor accepts
  \<open>(username, secret)\<close> iff the username is in the mapping and the salted-hash
  comparison of the secret against the stored digest succeeds. The code does not do
  that: \<open>NewAuthenticatorHashed\<close> builds the plaintext authenticator, so for every
  comparison function \<open>bcrypt\<close> its \<open>Check\<close> is the equality test of the secret with
  the stored string and never consults \<open>bcrypt\<close>.
\<close>

theorem NewAuthenticatorHashed_compares_plaintext:
  "Check bcrypt (NewAuthenticatorHashed creds) username secret \<longleftrightarrow> creds username = Some secret"
  by (auto simp: NewAuthenticatorHashed_def split: option.splits)

subsection \<open>The retry primitive\<close>

text \<open>Truncating division by 4, and the scripted world.\<close>

lemma sdiv_4_pos: "4 \<le> b \<Longrightarrow> 0 < b sdiv (4::int)"
  by (simp add: signed_divide_int_def sgn_if pos_imp_zdiv_pos_iff)

lemma sdiv_4_nonpos:
  assumes "b < 4"
  shows "b sdiv (4::int) \<le> 0"
proof (cases "0 \<le> b")
  case True
  with assms have "b div 4 = 0" by simp
  with True show ?thesis by (simp add: signed_divide_int_def sgn_if)
next
  case False
  then have "0 \<le> (- b) div 4" by (simp add: pos_imp_zdiv_nonneg_iff)
  with False show ?thesis by (simp add: signed_divide_int_def sgn_if)
qed

lemma loop_no_attempts:
  "attempts \<le> 0 \<Longrightarrow> loop env operation attempts backoff 0 err w = (Returns err, [], w)"
  by (subst loop.simps) simp

text \<open>
  C3. With \<open>attempts\<close> at most 0, \<open>DoWithBackoff\<close> returns \<^verbatim>\<open>nil\<close> without any event: the
  operation is not invoked and the world is unchanged. So \<open>SendEmail\<close> on a sender with
  \<open>retries\<close> = 0 reports success without a delivery attempt.
\<close>

theorem DoWithBackoff_no_attempts:
  "(attempts \<le> 0 \<longrightarrow> DoWithBackoff env operation attempts backoff w = (Returns None, [], w)) \<and>
   (gs_retries gs = 0 \<longrightarrow>
      SendEmail benv nenv from to subject body (gs, w') = (Returns None, [], gs, w'))"
  by (simp add: DoWithBackoff_def SendEmail_def loop_no_attempts)

theorem DoWithBackoff_no_attempts_witness:
  "DoWithBackoff (sim_env always_fails) (sim_operation always_fails) 0 5000000000 sim_start =
     (Returns None, [], sim_start) \<and>
   DoWithBackoff (sim_env always_fails) (sim_operation always_fails) (- 1) 5000000000 sim_start =
     (Returns None, [], sim_start) \<and>
   SendEmail example_backoff_env example_net ''a@x.com'' [''b@y.com''] ''subject'' ''body''
       (example_sender\<lparr>gs_retries := 0\<rparr>, 0) =
     (Returns None, [], example_sender\<lparr>gs_retries := 0\<rparr>, 0)"
proof -
  have z: "(0::int) \<le> 0" and m: "(- 1::int) \<le> 0"
    by simp_all
  have r: "gs_retries (example_sender\<lparr>gs_retries := 0\<rparr>) = 0"
    by simp
  note a = DoWithBackoff_no_attempts [THEN conjunct1, THEN mp, OF z]
  note b = DoWithBackoff_no_attempts [THEN conjunct1, THEN mp, OF m]
  note c = DoWithBackoff_no_attempts [THEN conjunct2, THEN mp, OF r]
  show ?thesis
    by (simp only: a b c)
qed

lemma loop_small_backoff:
  assumes "backoff < 4" and "loop env operation attempts backoff i err w = (res, evs, w')"
    and "Attempt (Some e) \<in> set evs"
  shows "res = Panics \<and> evs = [Attempt (Some e)]"
proof -
  have "Int63n env (backoff sdiv 4) w1 = None" for w1
    using sdiv_4_nonpos [OF assms(1)] by (simp add: Int63n_def)
  with assms(2,3) show ?thesis
    by (subst (asm) loop.simps) (auto split: if_splits option.splits prod.splits)
qed

lemma loop_first_failure_small_backoff:
  assumes "backoff < 4" and "int i < attempts" and "ctx_Err env w = None"
    and "fst (operation w) = Some e"
  shows "loop env operation attempts backoff i err w = (Panics, [Attempt (Some e)], snd (operation w))"
proof -
  have "Int63n env (backoff sdiv 4) w1 = None" for w1
    using sdiv_4_nonpos [OF assms(1)] by (simp add: Int63n_def)
  with assms(2-) show ?thesis
    by (subst loop.simps) (auto split: if_splits option.splits prod.splits)
qed

text \<open>
  C4. With \<open>backoff\<close> below 4 (nanoseconds), \<^verbatim>\<open>backoff / 4\<close> is not positive: whenever an
  invocation of the operation fails, \<open>DoWithBackoff\<close> panics in \<^verbatim>\<open>rand.Int63n\<close> instead
  of returning an error. In particular, with at least one attempt, a live context and
  a first invocation that fails, the call panics right after that invocation.
\<close>

theorem DoWithBackoff_small_backoff_panics:
  assumes "backoff < 4"
  shows "(DoWithBackoff env operation attempts backoff w = (res, evs, w') \<and>
          Attempt (Some e) \<in> set evs \<longrightarrow> res = Panics) \<and>
         (1 \<le> attempts \<and> ctx_Err env w = None \<and> fst (operation w) = Some e \<longrightarrow>
          DoWithBackoff env operation attempts backoff w =
            (Panics, [Attempt (Some e)], snd (operation w)))"
  using loop_small_backoff [OF assms, of env operation attempts 0 None w res evs w' e]
    loop_first_failure_small_backoff [OF assms, of 0 attempts env w operation e None]
  by (auto simp: DoWithBackoff_def)

theorem DoWithBackoff_small_backoff_panics_witness:
  "DoWithBackoff (sim_env always_fails) (sim_operation always_fails) 3 3 sim_start =
     (Panics, [Attempt (Some (Errorf ''boom''))], \<lparr>calls = 1, sleeps = 0, cancelled = None\<rparr>) \<and>
   fst (DoWithBackoff (sim_env always_fails) (sim_operation always_fails) 3 (- 8) sim_start) = Panics"
proof -
  let ?env = "sim_env always_fails" and ?op = "sim_operation always_fails"
  have small: "(3::int) < 4" and negative: "(- 8::int) < 4"
    by simp_all
  have first: "1 \<le> (3::int) \<and> ctx_Err ?env sim_start = None \<and>
      fst (?op sim_start) = Some (Errorf ''boom'')"
    by (simp add: sim_env_def sim_operation_def always_fails_def sim_start_def)
  note run = DoWithBackoff_small_backoff_panics [OF small, where operation = ?op,
      THEN conjunct2, THEN mp, OF first]
  have run': "DoWithBackoff ?env ?op 3 3 sim_start =
     (Panics, [Attempt (Some (Errorf ''boom''))], \<lparr>calls = 1, sleeps = 0, cancelled = None\<rparr>)"
    by (simp only: run) (simp add: sim_operation_def sim_start_def)
  have failed: "DoWithBackoff ?env ?op 3 (- 8) sim_start =
      (fst (DoWithBackoff ?env ?op 3 (- 8) sim_start),
       [Attempt (Some (Errorf ''boom''))], \<lparr>calls = 1, sleeps = 0, cancelled = None\<rparr>) \<and>
      Attempt (Some (Errorf ''boom'')) \<in> set [Attempt (Some (Errorf ''boom''))]"
    by (simp add: DoWithBackoff_def loop.simps Int63n_def sim_env_def sim_operation_def
        sim_start_def always_fails_def signed_divide_int_def)
  note panic = DoWithBackoff_small_backoff_panics [OF negative, THEN conjunct1, THEN mp, OF failed]
  from run' panic show ?thesis by simp
qed

text \<open>
  C5. The claim: the primitive sleeps only when attempts remain, for
  \<open>baseDelay * 2^i\<close> plus a jitter below \<open>baseDelay / 4\<close>. The guard \<^verbatim>\<open>i >= attempts\<close>
  never holds inside the loop, so the code also sleeps after the last failed attempt:
  with one attempt, a backoff of 4 s and an operation that fails, the call invokes the
  operation once, then waits 4.123456789 s, and only then returns the error.
\<close>

theorem DoWithBackoff_sleeps_after_last_attempt:
  "DoWithBackoff (sim_env always_fails) (sim_operation always_fails) 1 4000000000 sim_start =
     (Returns (Some (Errorf ''boom'')),
      [Attempt (Some (Errorf ''boom'')), Sleep 4123456789 True],
      \<lparr>calls = 1, sleeps = 1, cancelled = None\<rparr>)"
  by (simp add: DoWithBackoff_def loop.simps Int63n_def sim_env_def sim_operation_def sim_start_def
      always_fails_def wrap64_def signed_divide_int_def)

text \<open>
  After every failed invocation under a live context, the last one included, a wait
  follows, of \<open>backoff * 2^i\<close> plus a jitter from 0 to below \<open>backoff / 4\<close>, in \<^verbatim>\<open>int64\<close>.
\<close>

lemma loop_sleeps_after_every_failure:
  assumes "int i < attempts" and "ctx_Err env w = None" and "operation w = (Some e, w1)"
    and "4 \<le> backoff"
  shows "\<exists>jitter fired evs.
           0 \<le> jitter \<and> jitter < backoff sdiv 4 \<and>
           fst (snd (loop env operation attempts backoff i err w)) =
             Attempt (Some e) # Sleep (wrap64 (wrap64 (backoff * wrap64 (2 ^ i)) + jitter)) fired # evs"
proof -
  obtain v w2 where draw: "rand_Int63 env w1 = (v, w2)"
    by (cases "rand_Int63 env w1")
  let ?jitter = "v mod (backoff sdiv 4)"
  let ?sleep = "wrap64 (wrap64 (backoff * wrap64 (2 ^ i)) + ?jitter)"
  have pos: "0 < backoff sdiv 4"
    using assms(4) by (rule sdiv_4_pos)
  then have range: "0 \<le> ?jitter \<and> ?jitter < backoff sdiv 4"
    by simp
  have jit: "Int63n env (backoff sdiv 4) w1 = Some (?jitter, w2)"
    using pos draw by (simp add: Int63n_def)
  obtain fired w3 where sel: "select_After_Done env ?sleep w2 = (fired, w3)"
    by (cases "select_After_Done env ?sleep w2")
  have "\<exists>evs. fst (snd (loop env operation attempts backoff i err w)) =
          Attempt (Some e) # Sleep ?sleep fired # evs"
    using assms(1-3) jit sel
    by (subst loop.simps) (cases fired; simp split: prod.splits)
  with range show ?thesis by blast
qed










subsection \<open>The token cache\<close>


lemma Authenticate_success_token:
  "fst (Authenticate env gs w) = None \<Longrightarrow> gs_token (fst (snd (Authenticate env gs w))) \<noteq> None"
  by (auto simp: Authenticate_def split: if_splits prod.splits sum.splits option.splits)




end
